theory Spec2Isabelle
  imports Complex_Main
begin

section \<open>Python values and exceptions\<close>

text \<open>
  The repository is two Python modules: \<^verbatim>\<open>graph.py\<close> (the routing function of the
  agent loop) and \<^verbatim>\<open>utils/tools.py\<close> (the property search and the cash-on-cash
  calculator). Every \<^verbatim>\<open>raise\<close> and every operation of Python that can raise
  is a branch of the model returning \<open>Inl\<close> of the exception.
\<close>

datatype error =
    IndexError
  | ValueError string
  | KeyError string
  | TypeError
  | RequestException
  | JSONDecodeError
  | ZeroDivisionError

text \<open>
  Values of Python's \<^verbatim>\<open>Any\<close>: what \<^verbatim>\<open>response.json()\<close> returns and what a
  caller may pass as an extra keyword argument. A \<open>PDict\<close> lists its items in
  insertion order, with distinct keys.
\<close>

datatype pyval =
    PNone
  | PBool bool
  | PInt int
  | PFloat real
  | PStr string
  | PList "pyval list"
  | PDict "(string \<times> pyval) list"

section \<open>The routing function of the agent loop (graph.py)\<close>

text \<open>
  Modelled from the spec: the message and state types live in
  \<^verbatim>\<open>langchain_core.messages\<close> and \<^verbatim>\<open>realzen_agent/utils/state.py\<close>, neither
  of which is part of the sources. The spec's data model gives a conversation state as
  an ordered sequence of messages, each tagged as human, system, assistant or tool
  result; an assistant message carries a list of tool call requests, each a tool name
  with an argument mapping.
\<close>

record tool_call =
  name :: string
  args :: "(string \<times> pyval) list"

datatype message =
    HumanMessage string
  | SystemMessage string
  | AIMessage string "tool_call list"
  | ToolMessage string string

record state =
  messages :: "message list"

text \<open>\<^verbatim>\<open>type(m).__name__\<close>\<close>

fun type_name :: "message \<Rightarrow> string" where
  "type_name (HumanMessage c) = ''HumanMessage''"
| "type_name (SystemMessage c) = ''SystemMessage''"
| "type_name (AIMessage c tcs) = ''AIMessage''"
| "type_name (ToolMessage c i) = ''ToolMessage''"

text \<open>\<^verbatim>\<open>xs[-1]\<close>: the last element, IndexError on an empty sequence.\<close>

definition last_item :: "'a list \<Rightarrow> error + 'a" where
  "last_item xs = (if xs = [] then Inl IndexError else Inr (last xs))"

text \<open>
  \<^verbatim>\<open>
  def route_model_output(state):
      last_message = state.messages[-1]
      if not isinstance(last_message, AIMessage):
          raise ValueError(
              f"Expected AIMessage in output edges, but got {type(last_message).__name__}")
      if not last_message.tool_calls:
          return "__end__"
      return "tools"
  \<close>
\<close>

definition route_model_output :: "state \<Rightarrow> error + string" where
  "route_model_output st =
     (case last_item (messages st) of
        Inl e \<Rightarrow> Inl e
      | Inr last_message \<Rightarrow>
          (case last_message of
             AIMessage content tool_calls \<Rightarrow>
               if tool_calls = [] then Inr ''__end__'' else Inr ''tools''
           | _ \<Rightarrow>
               Inl (ValueError (''Expected AIMessage in output edges, but got ''
                                @ type_name last_message))))"

fun is_AIMessage :: "message \<Rightarrow> bool" where
  "is_AIMessage (AIMessage c tcs) = True"
| "is_AIMessage _ = False"

section \<open>Dictionaries and sequences of Python\<close>

text \<open>
  A \<^verbatim>\<open>dict\<close> is the list of its items in insertion order. \<^verbatim>\<open>d[k] = v\<close>
  replaces the value of a key that is present, in place, and appends a new key at the
  end.
\<close>

fun setitem :: "'k \<Rightarrow> 'v \<Rightarrow> ('k \<times> 'v) list \<Rightarrow> ('k \<times> 'v) list" where
  "setitem k v [] = [(k, v)]"
| "setitem k v ((k', v') # d) =
     (if k' = k then (k, v) # d else (k', v') # setitem k v d)"

text \<open>
  The entries of a dict display, and the items unpacked by \<^verbatim>\<open>**other\<close> inside one, are
  stored one after the other, from left to right.
\<close>

fun unpack :: "('k \<times> 'v) list \<Rightarrow> ('k \<times> 'v) list \<Rightarrow> ('k \<times> 'v) list" where
  "unpack d [] = d"
| "unpack d ((k, v) # items) = unpack (setitem k v d) items"

text \<open>\<^verbatim>\<open>d[k]\<close> on a dict with string keys: KeyError when the key is absent.\<close>

definition getitem :: "(string \<times> 'v) list \<Rightarrow> string \<Rightarrow> error + 'v" where
  "getitem d k = (case map_of d k of None \<Rightarrow> Inl (KeyError k) | Some v \<Rightarrow> Inr v)"

text \<open>
  \<^verbatim>\<open>x["results"]\<close> on an arbitrary value: only a dict can be subscripted with a
  string; a list or a string wants integer indices and the other values are not
  subscriptable, all of which raise TypeError.
\<close>

fun subscript :: "pyval \<Rightarrow> string \<Rightarrow> error + pyval" where
  "subscript (PDict d) k = getitem d k"
| "subscript _ k = Inl TypeError"

text \<open>
  \<^verbatim>\<open>xs[:n]\<close> on a sequence: the first \<open>n\<close> items, all of them when there are
  fewer; a negative \<open>n\<close> counts from the end and drops the last \<open>-n\<close> items.
\<close>

definition slice_to :: "'a list \<Rightarrow> int \<Rightarrow> 'a list" where
  "slice_to xs n =
     (if 0 \<le> n then take (nat n) xs else take (length xs - nat (- n)) xs)"

text \<open>
  \<^verbatim>\<open>x[:n]\<close> on an arbitrary value: lists and strings can be sliced; a dict raises
  (TypeError for the unhashable slice, a KeyError from Python 3.12 on, which the model
  does not tell apart) and the other values are not subscriptable.
\<close>

fun getslice :: "pyval \<Rightarrow> int \<Rightarrow> error + pyval" where
  "getslice (PList xs) n = Inr (PList (slice_to xs n))"
| "getslice (PStr s) n = Inr (PStr (slice_to s n))"
| "getslice _ n = Inl TypeError"

section \<open>The property search (utils/tools.py)\<close>

text \<open>
  The \<^verbatim>\<open>types\<close> argument is iterated by a \<^verbatim>\<open>for\<close> loop, so it may be a tuple
  (or list) of strings or a bare string, whose items are its characters.
\<close>

datatype types_arg = TypesTuple "string list" | TypesStr string

fun iterate :: "types_arg \<Rightarrow> string list" where
  "iterate (TypesTuple ts) = ts"
| "iterate (TypesStr s) = map (\<lambda>c. [c]) s"

text \<open>
  The default of the parameter: \<^verbatim>\<open>types: tuple = ("isSingleFamily",)\<close>. In the
  functions below a \<^verbatim>\<open>types\<close> of \<open>None\<close> is an omitted argument.
\<close>

definition default_types :: types_arg where
  "default_types = TypesTuple [''isSingleFamily'']"

text \<open>The seven property-type tags of the docstring, in the order of the dict.\<close>

definition property_type_tags :: "string list" where
  "property_type_tags =
     [''isSingleFamily'', ''isMultiFamily'', ''isCondo'', ''isTownhouse'',
      ''isApartment'', ''isLotLand'', ''isManufactured'']"

text \<open>
  \<^verbatim>\<open>
  property_types = {"isSingleFamily": "false", ..., "isManufactured": "false"}
  for _type in types:
      property_types[_type] = "true"
  \<close>
\<close>

definition initial_property_types :: "(string \<times> pyval) list" where
  "initial_property_types =
     [(''isSingleFamily'', PStr ''false''),
      (''isMultiFamily'', PStr ''false''),
      (''isCondo'', PStr ''false''),
      (''isTownhouse'', PStr ''false''),
      (''isApartment'', PStr ''false''),
      (''isLotLand'', PStr ''false''),
      (''isManufactured'', PStr ''false'')]"

fun set_types :: "string list \<Rightarrow> (string \<times> pyval) list \<Rightarrow> (string \<times> pyval) list" where
  "set_types [] property_types = property_types"
| "set_types (t # ts) property_types =
     set_types ts (setitem t (PStr ''true'') property_types)"

definition property_types_of :: "types_arg option \<Rightarrow> (string \<times> pyval) list" where
  "property_types_of types =
     set_types (iterate (case types of None \<Rightarrow> default_types | Some t \<Rightarrow> t))
       initial_property_types"

text \<open>
  \<^verbatim>\<open>
  querystring = {"location": location, "output": "json", **property_types, **kwargs}
  \<close>
\<close>

definition querystring ::
  "string \<Rightarrow> types_arg option \<Rightarrow> (string \<times> pyval) list \<Rightarrow> (string \<times> pyval) list" where
  "querystring location types kwargs =
     unpack
       (unpack
          (unpack [] [(''location'', PStr location), (''output'', PStr ''json'')])
          (property_types_of types))
       kwargs"

text \<open>
  Modelled from the spec: \<^verbatim>\<open>realzen_agent/utils/configuration.py\<close> is not part of the
  sources. The spec gives a Configuration as a model identifier, a system prompt and a
  result-count limit; \<^verbatim>\<open>Configuration.from_runnable_config(config)\<close> reads it from
  the injected \<^verbatim>\<open>config\<close>, so the model takes the Configuration itself.
\<close>

record configuration =
  model :: string
  system_prompt :: string
  max_search_results :: int

text \<open>
  The request that \<^verbatim>\<open>requests.get(url, headers=headers, params=querystring)\<close>
  sends, and what comes back: \<open>json_body\<close> is the value of \<^verbatim>\<open>response.json()\<close>,
  \<open>None\<close> when the body is not JSON and the call raises.
\<close>

record request =
  url :: string
  headers :: "(string \<times> string) list"
  params :: "(string \<times> pyval) list"

record response =
  status_code :: nat
  json_body :: "pyval option"

text \<open>
  \<^verbatim>\<open>
  url = "https://zillow56.p.rapidapi.com/search"
  querystring = {...}
  headers = {"x-rapidapi-key": os.environ["RAPIDAPI_KEY"],
             "x-rapidapi-host": "zillow56.p.rapidapi.com"}
  \<close>
  The request of a call, once the key has been read from the environment.
\<close>

definition search_request ::
  "string \<Rightarrow> string \<Rightarrow> types_arg option \<Rightarrow> (string \<times> pyval) list \<Rightarrow> request" where
  "search_request key location types kwargs =
     \<lparr>url = ''https://zillow56.p.rapidapi.com/search'',
      headers = [(''x-rapidapi-key'', key),
                 (''x-rapidapi-host'', ''zillow56.p.rapidapi.com'')],
      params = querystring location types kwargs\<rparr>"

text \<open>
  The world outside the function is two parameters: \<open>environ\<close> is \<^verbatim>\<open>os.environ\<close>
  and \<open>http_get\<close> is the network, \<open>None\<close> when \<^verbatim>\<open>requests.get\<close> raises instead
  of returning a response. The flags and the query are built first (nothing there can
  raise), then the key is read, the request is sent and the response is decoded,
  subscripted and sliced, each of which can raise:
  \<^verbatim>\<open>
  configuration = Configuration.from_runnable_config(config)
  limit = configuration.max_search_results
  ...
  response = requests.get(url, headers=headers, params=querystring)
  results = response.json()["results"][:limit]
  return results
  \<close>
\<close>

definition search_for_properties_by_location ::
  "(string \<rightharpoonup> string) \<Rightarrow> (request \<Rightarrow> response option) \<Rightarrow>
   string \<Rightarrow> configuration \<Rightarrow> types_arg option \<Rightarrow> (string \<times> pyval) list \<Rightarrow>
   error + pyval" where
  "search_for_properties_by_location environ http_get location config types kwargs =
     (let limit = max_search_results config
      in case environ ''RAPIDAPI_KEY'' of
           None \<Rightarrow> Inl (KeyError ''RAPIDAPI_KEY'')
         | Some key \<Rightarrow>
             (case http_get (search_request key location types kwargs) of
                None \<Rightarrow> Inl RequestException
              | Some response \<Rightarrow>
                  (case json_body response of
                     None \<Rightarrow> Inl JSONDecodeError
                   | Some body \<Rightarrow>
                       (case subscript body ''results'' of
                          Inl e \<Rightarrow> Inl e
                        | Inr results \<Rightarrow> getslice results limit))))"


section \<open>Python floats\<close>

text \<open>
  A Python \<^verbatim>\<open>float\<close> is an IEEE 754 binary64 number: every literal and every result
  of \<^verbatim>\<open>+\<close>, \<^verbatim>\<open>-\<close>, \<^verbatim>\<open>*\<close> and \<^verbatim>\<open>/\<close> is the exact value rounded to the nearest
  number with a 53-bit significand, ties to the even significand. The model keeps the
  numbers as reals and makes the rounding explicit. Below the normal range the spacing
  stays at \<open>2 ^ -1074\<close> (subnormal numbers); results beyond the largest finite float,
  infinities and NaN are not modelled.
\<close>

text \<open>\<^verbatim>\<open>int.bit_length\<close>: the number of binary digits of a positive integer.\<close>

function bit_length :: "int \<Rightarrow> int" where
  "bit_length n = (if n \<le> 0 then 0 else 1 + bit_length (n div 2))"
  by pat_completeness auto
termination
  by (relation "measure nat") auto

declare bit_length.simps [simp del]

text \<open>The binary exponent of a positive number: \<open>2 ^ ilog2 a \<le> a < 2 ^ (ilog2 a + 1)\<close>.\<close>

definition ilog2 :: "real \<Rightarrow> int" where
  "ilog2 a = (if 1 \<le> a then bit_length \<lfloor>a\<rfloor> - 1
              else - bit_length (\<lceil>1 / a\<rceil> - 1))"

definition pow2 :: "int \<Rightarrow> real" where
  "pow2 k = (if 0 \<le> k then 2 ^ nat k else 1 / 2 ^ nat (- k))"

text \<open>The nearest integer, a tie going to the even one.\<close>

definition round_half_even :: "real \<Rightarrow> int" where
  "round_half_even y =
     (let f = \<lfloor>y\<rfloor>; d = y - of_int f
      in if d < 1 / 2 then f else if 1 / 2 < d then f + 1
         else if even f then f else f + 1)"

text \<open>
  Rounding to binary64: between \<open>2 ^ e\<close> and \<open>2 ^ (e + 1)\<close> the floats are the
  multiples of \<open>2 ^ (e - 52)\<close>, and \<open>e\<close> does not go below \<open>-1022\<close>.
\<close>

definition round_binary64 :: "real \<Rightarrow> real" where
  "round_binary64 x =
     (if x = 0 then 0
      else let q = pow2 (max (ilog2 \<bar>x\<bar>) (- 1022) - 52)
           in sgn x * of_int (round_half_even (\<bar>x\<bar> / q)) * q)"





section \<open>The cash-on-cash calculator (utils/tools.py)\<close>







section \<open>Routing after the model step\<close>

text \<open>
  C1. Whenever the last message of the conversation is an assistant message, the
  routing function returns the terminal node \<^verbatim>\<open>"__end__"\<close> if and only if that
  message has an empty tool-call list, and returns \<^verbatim>\<open>"tools"\<close> when the list is
  not empty.
\<close>

theorem route_model_output_assistant:
  assumes "messages st \<noteq> []"
    and "last (messages st) = AIMessage content tool_calls"
  shows "(route_model_output st = Inr ''__end__'' \<longleftrightarrow> tool_calls = [])
       \<and> (tool_calls \<noteq> [] \<longrightarrow> route_model_output st = Inr ''tools'')"
  using assms by (simp add: route_model_output_def last_item_def)

theorem route_model_output_assistant_witness:
  "messages \<lparr>messages = [HumanMessage ''hi'', AIMessage ''done'' []]\<rparr> \<noteq> []
   \<and> last (messages \<lparr>messages = [HumanMessage ''hi'', AIMessage ''done'' []]\<rparr>)
       = AIMessage ''done'' []
   \<and> route_model_output \<lparr>messages = [HumanMessage ''hi'', AIMessage ''done'' []]\<rparr>
       = Inr ''__end__''
   \<and> route_model_output
        \<lparr>messages = [HumanMessage ''hi'',
                     AIMessage ''ok'' [\<lparr>name = ''calculate_cash_on_cash'', args = []\<rparr>]]\<rparr>
       = Inr ''tools''"
  using route_model_output_assistant
          [of "\<lparr>messages = [HumanMessage ''hi'', AIMessage ''done'' []]\<rparr>" "''done''" "[]"]
        route_model_output_assistant
          [of "\<lparr>messages = [HumanMessage ''hi'',
                 AIMessage ''ok'' [\<lparr>name = ''calculate_cash_on_cash'', args = []\<rparr>]]\<rparr>"
              "''ok''" "[\<lparr>name = ''calculate_cash_on_cash'', args = []\<rparr>]"]
  by simp

text \<open>
  C6. Whenever the last message of the conversation is not an assistant message, the
  routing function raises (the \<^verbatim>\<open>ValueError\<close> of the source, which the spec calls
  \<^verbatim>\<open>MalformedModelOutput\<close>) and returns neither \<^verbatim>\<open>"tools"\<close> nor
  \<^verbatim>\<open>"__end__"\<close>.
\<close>

theorem route_model_output_malformed:
  assumes "messages st \<noteq> []"
    and "\<not> is_AIMessage (last (messages st))"
  shows "route_model_output st =
           Inl (ValueError (''Expected AIMessage in output edges, but got ''
                            @ type_name (last (messages st))))
       \<and> route_model_output st \<noteq> Inr ''tools''
       \<and> route_model_output st \<noteq> Inr ''__end__''"
  using assms
  by (cases "last (messages st)") (simp_all add: route_model_output_def last_item_def)

theorem route_model_output_malformed_witness:
  "messages \<lparr>messages = [HumanMessage ''hi'', ToolMessage ''0.07'' ''call_1'']\<rparr> \<noteq> []
   \<and> \<not> is_AIMessage
         (last (messages \<lparr>messages = [HumanMessage ''hi'', ToolMessage ''0.07'' ''call_1'']\<rparr>))
   \<and> route_model_output \<lparr>messages = [HumanMessage ''hi'', ToolMessage ''0.07'' ''call_1'']\<rparr>
       = Inl (ValueError ''Expected AIMessage in output edges, but got ToolMessage'')"
  using route_model_output_malformed
          [of "\<lparr>messages = [HumanMessage ''hi'', ToolMessage ''0.07'' ''call_1'']\<rparr>"]
  by simp

section \<open>Looking keys up in the dicts that the search builds\<close>

lemma map_of_setitem: "map_of (setitem k v d) = (map_of d)(k \<mapsto> v)"
  by (induction d) (auto simp: fun_eq_iff)

lemma keys_setitem: "fst ` set (setitem k v d) = insert k (fst ` set d)"
  by (simp add: dom_map_of_conv_image_fst [symmetric] map_of_setitem)

lemma distinct_setitem: "distinct (map fst d) \<Longrightarrow> distinct (map fst (setitem k v d))"
  by (induction d) (auto simp: keys_setitem)

lemma map_of_unpack_other:
  "k \<notin> fst ` set items \<Longrightarrow> map_of (unpack d items) k = map_of d k"
  by (induction d items rule: unpack.induct) (auto simp: map_of_setitem)

lemma map_of_unpack_item:
  "distinct (map fst items) \<Longrightarrow> (k, v) \<in> set items \<Longrightarrow> map_of (unpack d items) k = Some v"
proof (induction d items rule: unpack.induct)
  case (1 d)
  then show ?case by simp
next
  case (2 d k' v' items)
  show ?case
  proof (cases "(k, v) \<in> set items")
    case True
    with 2 show ?thesis by simp
  next
    case False
    with 2 have kv: "k' = k" "v' = v" by auto
    with 2 have "k \<notin> fst ` set items" by auto
    then show ?thesis using kv by (simp add: map_of_unpack_other map_of_setitem)
  qed
qed

lemma map_of_unpack:
  assumes "distinct (map fst items)"
  shows "map_of (unpack d items) k =
     (case map_of items k of None \<Rightarrow> map_of d k | Some v \<Rightarrow> Some v)"
proof (cases "map_of items k")
  case None
  then have "k \<notin> fst ` set items" by (simp add: map_of_eq_None_iff)
  then show ?thesis using None by (simp add: map_of_unpack_other)
next
  case (Some v)
  then have "(k, v) \<in> set items" by (rule map_of_SomeD)
  then show ?thesis using Some assms by (simp add: map_of_unpack_item)
qed

lemma map_of_set_types:
  "map_of (set_types ts d) k = (if k \<in> set ts then Some (PStr ''true'') else map_of d k)"
  by (induction ts d rule: set_types.induct) (auto simp: map_of_setitem)

lemma distinct_set_types: "distinct (map fst d) \<Longrightarrow> distinct (map fst (set_types ts d))"
  by (induction ts d rule: set_types.induct) (auto simp: distinct_setitem)

lemma map_of_initial_property_types:
  "map_of initial_property_types k =
     (if k \<in> set property_type_tags then Some (PStr ''false'') else None)"
  by (simp add: initial_property_types_def property_type_tags_def)

lemma map_of_property_types_of:
  "map_of (property_types_of types) k =
     (if k \<in> set (iterate (case types of None \<Rightarrow> default_types | Some t \<Rightarrow> t))
      then Some (PStr ''true'')
      else if k \<in> set property_type_tags then Some (PStr ''false'') else None)"
  by (simp only: property_types_of_def map_of_set_types map_of_initial_property_types)

lemma distinct_property_types_of: "distinct (map fst (property_types_of types))"
  by (simp add: property_types_of_def distinct_set_types initial_property_types_def)

section \<open>The query of the property search\<close>

text \<open>
  C2 as stated fails: \<^verbatim>\<open>**kwargs\<close> is unpacked into the query after the flags. A
  caller that asks for single-family homes only and also passes the extra keyword
  argument \<^verbatim>\<open>isCondo="true"\<close> sends \<^verbatim>\<open>isCondo\<close> as \<^verbatim>\<open>"true"\<close>, although that tag
  was not requested; and a caller that supplies no types and passes
  \<^verbatim>\<open>isSingleFamily="false"\<close> sends the default tag as \<^verbatim>\<open>"false"\<close>.
\<close>

theorem querystring_flags_counterexample:
  "''isCondo'' \<in> set property_type_tags
   \<and> ''isCondo'' \<notin> set [''isSingleFamily'']
   \<and> map_of (querystring ''San Francisco, CA'' (Some (TypesTuple [''isSingleFamily'']))
               [(''isCondo'', PStr ''true'')]) ''isCondo''
       = Some (PStr ''true'')
   \<and> map_of (querystring ''San Francisco, CA'' None
               [(''isSingleFamily'', PStr ''false'')]) ''isSingleFamily''
       = Some (PStr ''false'')"
  by (simp add: querystring_def property_types_of_def initial_property_types_def
        property_type_tags_def default_types_def)

text \<open>
  C2, amended. For every requested tuple of property-type tags, and for single-family
  only when no types are supplied, the query maps each of the seven tags that is not
  also the name of an extra keyword argument to \<^verbatim>\<open>"true"\<close> when the tag is requested
  and to \<^verbatim>\<open>"false"\<close> when it is not.
\<close>

theorem querystring_flags:
  assumes "tag \<in> set property_type_tags"
    and "tag \<notin> fst ` set kwargs"
  shows "map_of (querystring location (Some (TypesTuple ts)) kwargs) tag
           = Some (PStr (if tag \<in> set ts then ''true'' else ''false''))
       \<and> map_of (querystring location None kwargs) tag
           = Some (PStr (if tag = ''isSingleFamily'' then ''true'' else ''false''))"
proof -
  have q: "map_of (querystring location types kwargs) tag
             = map_of (property_types_of types) tag" for types
  proof -
    have "map_of (property_types_of types) tag \<noteq> None"
      using assms(1) by (simp add: map_of_property_types_of)
    then show ?thesis
      using assms(2)
      by (auto simp add: querystring_def map_of_unpack_other map_of_unpack
            distinct_property_types_of)
  qed
  have "''isSingleFamily'' \<in> set property_type_tags"
    by (simp add: property_type_tags_def)
  then show ?thesis
    using assms(1) by (simp add: q map_of_property_types_of default_types_def)
qed

theorem querystring_flags_witness:
  "''isCondo'' \<in> set property_type_tags
   \<and> ''isCondo'' \<notin> fst ` set [(''limit'', PInt 5)]
   \<and> map_of (querystring ''San Francisco, CA''
               (Some (TypesTuple [''isCondo'', ''isTownhouse''])) [(''limit'', PInt 5)])
        ''isCondo'' = Some (PStr ''true'')
   \<and> map_of (querystring ''San Francisco, CA'' None [(''limit'', PInt 5)]) ''isCondo''
       = Some (PStr ''false'')"
  using querystring_flags
          [of "''isCondo''" "[(''limit'', PInt 5)]" "''San Francisco, CA''"
              "[''isCondo'', ''isTownhouse'']"]
  by (simp add: property_type_tags_def)






section \<open>The outcome of the property search\<close>


text \<open>
  C4. When the key is set, the request returns and the response is a JSON object whose
  \<^verbatim>\<open>results\<close> field is an array of at least \<open>k\<close> entries, where \<open>k \<ge> 0\<close> is the
  configured \<^verbatim>\<open>max_search_results\<close>, the search returns exactly the first \<open>k\<close>
  entries of that array, in the order of the array.
\<close>

theorem search_truncates:
  assumes "environ ''RAPIDAPI_KEY'' = Some key"
    and "http_get (search_request key location types kwargs) = Some response"
    and "json_body response = Some (PDict body)"
    and "map_of body ''results'' = Some (PList results)"
    and "0 \<le> max_search_results config"
    and "max_search_results config \<le> int (length results)"
  shows "search_for_properties_by_location environ http_get location config types kwargs
           = Inr (PList (take (nat (max_search_results config)) results))
       \<and> int (length (take (nat (max_search_results config)) results))
           = max_search_results config"
  using assms
  by (simp add: search_for_properties_by_location_def getitem_def slice_to_def)

theorem search_truncates_witness:
  "[''RAPIDAPI_KEY'' \<mapsto> ''secret''] ''RAPIDAPI_KEY'' = Some ''secret''
   \<and> (\<lambda>req. Some \<lparr>status_code = 200,
          json_body = Some (PDict [(''results'',
            PList [PDict [(''zpid'', PInt 1)], PDict [(''zpid'', PInt 2)],
                   PDict [(''zpid'', PInt 3)]])])\<rparr>)
         (search_request ''secret'' ''San Francisco, CA'' None [])
       = Some \<lparr>status_code = 200,
          json_body = Some (PDict [(''results'',
            PList [PDict [(''zpid'', PInt 1)], PDict [(''zpid'', PInt 2)],
                   PDict [(''zpid'', PInt 3)]])])\<rparr>
   \<and> (0::int) \<le> 2
   \<and> (2::int) \<le> int (length [PDict [(''zpid'', PInt 1)], PDict [(''zpid'', PInt 2)],
                                PDict [(''zpid'', PInt 3)]])
   \<and> search_for_properties_by_location
         [''RAPIDAPI_KEY'' \<mapsto> ''secret'']
         (\<lambda>req. Some \<lparr>status_code = 200,
            json_body = Some (PDict [(''results'',
              PList [PDict [(''zpid'', PInt 1)], PDict [(''zpid'', PInt 2)],
                     PDict [(''zpid'', PInt 3)]])])\<rparr>)
         ''San Francisco, CA''
         \<lparr>model = ''m'', system_prompt = ''p'', max_search_results = 2\<rparr>
         None []
       = Inr (PList [PDict [(''zpid'', PInt 1)], PDict [(''zpid'', PInt 2)]])"
  using search_truncates
          [of "[''RAPIDAPI_KEY'' \<mapsto> ''secret'']" "''secret''"
              "\<lambda>req. Some \<lparr>status_code = 200,
                 json_body = Some (PDict [(''results'',
                   PList [PDict [(''zpid'', PInt 1)], PDict [(''zpid'', PInt 2)],
                          PDict [(''zpid'', PInt 3)]])])\<rparr>"
              "''San Francisco, CA''" None "[]"
              "\<lparr>status_code = 200,
                 json_body = Some (PDict [(''results'',
                   PList [PDict [(''zpid'', PInt 1)], PDict [(''zpid'', PInt 2)],
                          PDict [(''zpid'', PInt 3)]])])\<rparr>"
              "[(''results'',
                   PList [PDict [(''zpid'', PInt 1)], PDict [(''zpid'', PInt 2)],
                          PDict [(''zpid'', PInt 3)]])]"
              "[PDict [(''zpid'', PInt 1)], PDict [(''zpid'', PInt 2)],
                          PDict [(''zpid'', PInt 3)]]"
              "\<lparr>model = ''m'', system_prompt = ''p'', max_search_results = 2\<rparr>"]
  by (simp add: numeral_2_eq_2)




section \<open>The rounding of binary64\<close>





lemma round_half_even_error: "\<bar>real_of_int (round_half_even y) - y\<bar> \<le> 1 / 2"
  unfolding round_half_even_def Let_def
  by (auto simp: abs_le_iff)

lemma pow2_pos: "0 < pow2 k"
  by (simp add: pow2_def)

lemma round_binary64_error:
  assumes "x \<noteq> 0"
  shows "\<bar>round_binary64 x - x\<bar> \<le> pow2 (max (ilog2 \<bar>x\<bar>) (- 1022) - 52) / 2"
proof -
  define q where "q = pow2 (max (ilog2 \<bar>x\<bar>) (- 1022) - 52)"
  have q: "0 < q" unfolding q_def by (rule pow2_pos)
  define n where "n = round_half_even (\<bar>x\<bar> / q)"
  have r: "round_binary64 x = sgn x * real_of_int n * q"
    using assms by (simp add: round_binary64_def Let_def q_def n_def)
  have "\<bar>real_of_int n - \<bar>x\<bar> / q\<bar> \<le> 1 / 2"
    unfolding n_def by (rule round_half_even_error)
  then have "\<bar>real_of_int n - \<bar>x\<bar> / q\<bar> * q \<le> 1 / 2 * q"
    using q by (intro mult_right_mono) simp_all
  moreover have "\<bar>real_of_int n - \<bar>x\<bar> / q\<bar> * q = \<bar>real_of_int n * q - \<bar>x\<bar>\<bar>"
  proof -
    have "\<bar>real_of_int n - \<bar>x\<bar> / q\<bar> * q = \<bar>(real_of_int n - \<bar>x\<bar> / q) * q\<bar>"
      using q by (simp add: abs_mult)
    also have "(real_of_int n - \<bar>x\<bar> / q) * q = real_of_int n * q - \<bar>x\<bar>"
      using q by (simp add: field_simps)
    finally show ?thesis .
  qed
  moreover have "\<bar>sgn x * real_of_int n * q - x\<bar> = \<bar>real_of_int n * q - \<bar>x\<bar>\<bar>"
  proof (cases "0 < x")
    case True
    then show ?thesis by simp
  next
    case False
    with assms have "x < 0" by simp
    then have "sgn x * real_of_int n * q - x = - (real_of_int n * q - \<bar>x\<bar>)"
      by simp
    then show ?thesis by (simp only: abs_minus)
  qed
  ultimately show ?thesis by (simp add: r q_def)
qed















section \<open>The cash-on-cash calculator\<close>




















end
